theory Spec2Isabelle
  imports Main "HOL-Library.Word"
begin

section \<open>The PetIGA binary codec of igakit (\<^verbatim>\<open>src/igakit/io.py\<close>)\<close>

text \<open>
  The embedding fixes the default numeric profile of \<^verbatim>\<open>PetIGA.__init__\<close>:
  \<^verbatim>\<open>indices='32bit'\<close> (dtype \<^verbatim>\<open>'>i4'\<close>), \<^verbatim>\<open>precision='double'\<close> and
  \<^verbatim>\<open>scalar='real'\<close> (dtype \<^verbatim>\<open>'>f8'\<close> for both Real and Scalar).
  An Index value is a 32-bit word read in two's complement; a Real or Scalar value is the
  64-bit pattern of an IEEE double, so that "exactly equal" means equal bit for bit and no
  floating-point arithmetic is involved (the codec performs none).
\<close>

subsection \<open>Data model\<close>

type_synonym byte = "8 word"
type_synonym index = "32 word"
type_synonym float64 = "64 word"

datatype endian = BigEndian | LittleEndian

text \<open>
  The source validates with bare \<^verbatim>\<open>assert\<close> statements: every failure is an
  \<^verbatim>\<open>AssertionError\<close>. The tag records which assertion failed, under the name the
  specification gives to that check. \<^verbatim>\<open>IndexError\<close> is what \<^verbatim>\<open>np.fromfile(fid, dtype, 1)[0]\<close>
  raises at the end of the stream (the specification's ShortRead), \<^verbatim>\<open>ValueError\<close> is what
  numpy raises for a shape that does not fit, \<^verbatim>\<open>OverflowError\<close> what \<^verbatim>\<open>np.asarray(v, '>i4')\<close>
  raises for a Python integer outside the 32-bit range, \<^verbatim>\<open>TypeError\<close> what indexing
  \<^verbatim>\<open>None\<close> raises, \<^verbatim>\<open>FileNotFoundError\<close> what \<^verbatim>\<open>open(filename, 'rb')\<close> raises.
\<close>

datatype assert_site =
    BadMagic | DimensionOutOfRange | InvalidDegree | InvalidGridSize | SizeMismatch
  | BadArguments

datatype error =
    AssertionError assert_site | IndexError | ValueError | OverflowError | TypeError
  | FileNotFoundError

text \<open>
  A numpy array: the byte order of its dtype, its shape, and its elements in row-major
  (C) order.
\<close>

record 'a ndarray =
  byteorder :: endian
  shape :: "nat list"
  flat :: "'a list"

definition VEC_ID :: int where "VEC_ID = 1211214"
definition MAT_ID :: int where "MAT_ID = 1211216"
definition IGA_ID :: int where "IGA_ID = 1211299"

subsection \<open>Wire representation: most significant byte first\<close>

fun be_bytes :: "nat \<Rightarrow> nat \<Rightarrow> byte list" where
  "be_bytes 0 v = []"
| "be_bytes (Suc n) v = of_nat (v div 256 ^ n) # be_bytes n v"

definition be_nat :: "byte list \<Rightarrow> nat" where
  "be_nat bs = foldl (\<lambda>a b. a * 256 + unat b) 0 bs"

definition enc_I :: "index \<Rightarrow> byte list" where
  "enc_I w = be_bytes 4 (unat w)"

definition dec_I :: "byte list \<Rightarrow> index" where
  "dec_I bs = of_nat (be_nat bs)"

definition enc_R :: "float64 \<Rightarrow> byte list" where
  "enc_R w = be_bytes 8 (unat w)"

definition dec_R :: "byte list \<Rightarrow> float64" where
  "dec_R bs = of_nat (be_nat bs)"

subsection \<open>Results and the primitive codec\<close>

definition rbind :: "error + 'a \<Rightarrow> ('a \<Rightarrow> error + 'b) \<Rightarrow> error + 'b" where
  "rbind r f = (case r of Inl e \<Rightarrow> Inl e | Inr x \<Rightarrow> f x)"

definition py_assert :: "assert_site \<Rightarrow> bool \<Rightarrow> error + 'a \<Rightarrow> error + 'a" where
  "py_assert site b k = (if b then k else Inl (AssertionError site))"

text \<open>
  \<^verbatim>\<open>np.fromfile(fid, dtype, count)\<close> on a stream whose unread bytes are \<open>fh\<close>, for items of
  \<open>w\<close> bytes: it reads items one after another until it has \<open>count\<close> of them or fewer than
  \<open>w\<close> bytes are left, and every complete item when \<open>count\<close> is negative; it never raises
  on a short stream. The second component is the stream after the call. The array it
  returns has the dtype it was given, so a big-endian one.
\<close>

fun take_items :: "nat \<Rightarrow> nat \<Rightarrow> byte list \<Rightarrow> byte list list \<times> byte list" where
  "take_items w 0 fh = ([], fh)"
| "take_items w (Suc k) fh =
     (if length fh < w then ([], fh)
      else (let (items, fh') = take_items w k (drop w fh) in (take w fh # items, fh')))"

definition np_fromfile :: "nat \<Rightarrow> int \<Rightarrow> byte list \<Rightarrow> byte list list \<times> byte list" where
  "np_fromfile w count fh =
     take_items w (if count < 0 then length fh div w else nat count) fh"

definition fromfile_I :: "int \<Rightarrow> byte list \<Rightarrow> index ndarray \<times> byte list" where
  "fromfile_I count fh =
     (let (items, fh') = np_fromfile 4 count fh
      in (\<lparr>byteorder = BigEndian, shape = [length items], flat = map dec_I items\<rparr>, fh'))"

definition fromfile_R :: "int \<Rightarrow> byte list \<Rightarrow> float64 ndarray \<times> byte list" where
  "fromfile_R count fh =
     (let (items, fh') = np_fromfile 8 count fh
      in (\<lparr>byteorder = BigEndian, shape = [length items], flat = map dec_R items\<rparr>, fh'))"

text \<open>\<^verbatim>\<open>array.astype(dtype.newbyteorder('='))\<close>: the same values, in the host's byte order.\<close>

definition astype_native :: "endian \<Rightarrow> 'a ndarray \<Rightarrow> 'a ndarray" where
  "astype_native host a = a\<lparr>byteorder := host\<rparr>"

text \<open>
  \<^verbatim>\<open>PetIGA._read\<close> with \<^verbatim>\<open>count=None\<close> (one Index value, a numpy scalar, which has no
  byte order of its own) and with a count.
\<close>

definition read_I :: "byte list \<Rightarrow> error + (index \<times> byte list)" where
  "read_I fh =
     (let (a, fh') = fromfile_I 1 fh
      in case flat a of [] \<Rightarrow> Inl IndexError | v # _ \<Rightarrow> Inr (v, fh'))"

definition read_array_I :: "endian \<Rightarrow> int \<Rightarrow> byte list \<Rightarrow> index ndarray \<times> byte list" where
  "read_array_I host count fh =
     (let (a, fh') = fromfile_I count fh in (astype_native host a, fh'))"

definition read_array_R :: "endian \<Rightarrow> int \<Rightarrow> byte list \<Rightarrow> float64 ndarray \<times> byte list" where
  "read_array_R host count fh =
     (let (a, fh') = fromfile_R count fh in (astype_native host a, fh'))"

text \<open>
  \<^verbatim>\<open>PetIGA._write\<close>: \<^verbatim>\<open>np.asarray(array, dtype).tofile(fid)\<close>. The stream is the list of
  bytes written so far. A Python integer is converted to \<^verbatim>\<open>'>i4'\<close> first, which fails
  outside the 32-bit range.
\<close>

type_synonym wstate = "error option \<times> byte list"

definition write_I :: "int \<Rightarrow> byte list \<Rightarrow> wstate" where
  "write_I v fh =
     (if - (2 ^ 31) \<le> v \<and> v < 2 ^ 31 then (None, fh @ enc_I (word_of_int v))
      else (Some OverflowError, fh))"

definition write_array_R :: "float64 list \<Rightarrow> byte list \<Rightarrow> wstate" where
  "write_array_R xs fh = (None, fh @ concat (map enc_R xs))"

text \<open>One statement after another: an exception leaves the stream as it was when raised.\<close>

definition wseq :: "wstate \<Rightarrow> (byte list \<Rightarrow> wstate) \<Rightarrow> wstate" where
  "wseq r f = (case r of (None, fh) \<Rightarrow> f fh | (Some e, fh) \<Rightarrow> (Some e, fh))"

subsection \<open>Array layout\<close>

text \<open>
  Positions in a flat buffer. In C order the last index varies fastest, in Fortran order
  (\<^verbatim>\<open>order='f'\<close>) the first.
\<close>

fun ravel_c :: "nat list \<Rightarrow> nat list \<Rightarrow> nat" where
  "ravel_c (n # ns) (i # js) = i * prod_list ns + ravel_c ns js"
| "ravel_c _ _ = 0"

fun unravel_c :: "nat list \<Rightarrow> nat \<Rightarrow> nat list" where
  "unravel_c [] k = []"
| "unravel_c (n # ns) k = k div prod_list ns # unravel_c ns (k mod prod_list ns)"

fun ravel_f :: "nat list \<Rightarrow> nat list \<Rightarrow> nat" where
  "ravel_f (n # ns) (i # js) = i + n * ravel_f ns js"
| "ravel_f _ _ = 0"

fun unravel_f :: "nat list \<Rightarrow> nat \<Rightarrow> nat list" where
  "unravel_f [] k = []"
| "unravel_f (n # ns) k = k mod n # unravel_f ns (k div n)"

definition at :: "'a ndarray \<Rightarrow> nat list \<Rightarrow> 'a" where
  "at a js = flat a ! ravel_c (shape a) js"

definition tabulate :: "endian \<Rightarrow> nat list \<Rightarrow> (nat list \<Rightarrow> 'a) \<Rightarrow> 'a ndarray" where
  "tabulate bo sh f =
     \<lparr>byteorder = bo, shape = sh, flat = map (\<lambda>k. f (unravel_c sh k)) [0..<prod_list sh]\<rparr>"

text \<open>\<^verbatim>\<open>a[..., idx]\<close> for a list \<open>idx\<close> of channel numbers: numpy raises IndexError when a
  channel number is not below the size of the last axis (or there is no axis).\<close>

definition take_channels :: "'a ndarray \<Rightarrow> nat list \<Rightarrow> error + 'a ndarray" where
  "take_channels a idx =
     (if shape a = [] \<or> (\<exists>c \<in> set idx. last (shape a) \<le> c) then Inl IndexError
      else Inr (tabulate (byteorder a) (butlast (shape a) @ [length idx])
                  (\<lambda>js. at a (butlast js @ [idx ! last js]))))"

text \<open>\<^verbatim>\<open>np.rollaxis(a, -1)\<close>: the last axis becomes the first.\<close>

definition rollaxis_front :: "'a ndarray \<Rightarrow> 'a ndarray" where
  "rollaxis_front a =
     tabulate (byteorder a) (last (shape a) # butlast (shape a)) (\<lambda>js. at a (tl js @ [hd js]))"

text \<open>\<^verbatim>\<open>np.rollaxis(a, 0, a.ndim)\<close>: the first axis becomes the last.\<close>

definition rollaxis_back :: "'a ndarray \<Rightarrow> 'a ndarray" where
  "rollaxis_back a =
     tabulate (byteorder a) (tl (shape a) @ [hd (shape a)]) (\<lambda>js. at a (last js # butlast js))"

text \<open>\<^verbatim>\<open>a.ravel('f')\<close>: the elements in Fortran order.\<close>

definition ravel_F :: "'a ndarray \<Rightarrow> 'a list" where
  "ravel_F a = map (\<lambda>k. at a (unravel_f (shape a) k)) [0..<prod_list (shape a)]"

text \<open>\<^verbatim>\<open>a.reshape(shape, order='f')\<close> of a one-dimensional array: ValueError unless the
  sizes agree.\<close>

definition reshape_F :: "'a ndarray \<Rightarrow> nat list \<Rightarrow> error + 'a ndarray" where
  "reshape_F a sh =
     (if length (flat a) \<noteq> prod_list sh then Inl ValueError
      else Inr (tabulate (byteorder a) sh (\<lambda>js. flat a ! ravel_f sh js)))"

subsection \<open>The geometry object\<close>

text \<open>
  The class \<^verbatim>\<open>igakit.nurbs.NURBS\<close> is not part of the source at hand. The record holds the
  attributes that \<^verbatim>\<open>PetIGA.write\<close> reads from it: \<^verbatim>\<open>dim\<close>, \<^verbatim>\<open>degree\<close>, \<^verbatim>\<open>knots\<close>,
  \<^verbatim>\<open>control\<close>. The writer checks none of them against the others.
\<close>

record nurbs =
  dim :: int
  degree :: "int list"
  knots :: "float64 ndarray list"
  control :: "float64 ndarray option"

subsection \<open>\<^verbatim>\<open>PetIGA.write\<close>\<close>

type_synonym filesystem = "string \<rightharpoonup> byte list"

text \<open>Lines 61 to 74: the checks and the layout of the control values, before the file is
  opened. The result is the descriptor, the effective \<^verbatim>\<open>nsd\<close> and \<^verbatim>\<open>Cw\<close>.\<close>

definition write_prepare ::
  "nurbs \<Rightarrow> bool \<Rightarrow> int option \<Rightarrow> error + (int \<times> int option \<times> float64 list option)" where
  "write_prepare nrb geometry nsd =
     (if geometry then
        (let nsd' = (case nsd of None \<Rightarrow> dim nrb | Some v \<Rightarrow> v) in
         py_assert BadArguments (dim nrb \<le> nsd' \<and> nsd' \<le> 3)
          (case control nrb of
             None \<Rightarrow> Inl TypeError
           | Some c \<Rightarrow>
               rbind (take_channels c ([0..<nat nsd'] @ [3]))
                 (\<lambda>Cw. Inr (1, Some nsd', Some (ravel_F (rollaxis_front Cw))))))
      else py_assert BadArguments (nsd = None) (Inr (0, None, None)))"

text \<open>Lines 81 to 84: the loop over \<^verbatim>\<open>zip(degree, knots)\<close>.\<close>

fun write_axes :: "(int \<times> float64 ndarray) list \<Rightarrow> byte list \<Rightarrow> wstate" where
  "write_axes [] fh = (None, fh)"
| "write_axes ((p, U) # rest) fh =
     wseq (write_I p fh) (\<lambda>fh.
     wseq (write_I (int (length (flat U))) fh) (\<lambda>fh.
     wseq (write_array_R (flat U) fh) (\<lambda>fh.
     write_axes rest fh)))"

text \<open>Lines 78 to 89: what is written to the opened (empty) file.\<close>

definition write_stream ::
  "nurbs \<Rightarrow> bool \<Rightarrow> int \<Rightarrow> int option \<Rightarrow> float64 list option \<Rightarrow> byte list \<Rightarrow> wstate" where
  "write_stream nrb geometry descr nsd Cw fh =
     wseq (write_I IGA_ID fh) (\<lambda>fh.
     wseq (write_I descr fh) (\<lambda>fh.
     wseq (write_I (dim nrb) fh) (\<lambda>fh.
     wseq (write_axes (zip (degree nrb) (knots nrb)) fh) (\<lambda>fh.
     if geometry then
       wseq (write_I (the nsd) fh) (\<lambda>fh.
       wseq (write_I VEC_ID fh) (\<lambda>fh.
       wseq (write_I (int (length (the Cw))) fh) (\<lambda>fh.
       write_array_R (the Cw) fh)))
     else (None, fh)))))"

text \<open>
  The whole of \<^verbatim>\<open>PetIGA.write\<close>, on a file system (\<open>write\<close> alone is a keyword of Isabelle). \<^verbatim>\<open>open(filename, 'wb')\<close> creates the file or
  empties it; the \<^verbatim>\<open>finally\<close> clause closes it, so whatever was written before an
  exception stays in the file.
\<close>

definition petiga_write ::
  "filesystem \<Rightarrow> string \<Rightarrow> nurbs \<Rightarrow> bool \<Rightarrow> int option \<Rightarrow> error option \<times> filesystem" where
  "petiga_write fs filename nrb geometry nsd =
     (case write_prepare nrb geometry nsd of
        Inl e \<Rightarrow> (Some e, fs)
      | Inr (descr, nsd', Cw) \<Rightarrow>
          (let (r, content) = write_stream nrb geometry descr nsd' Cw []
           in (r, fs(filename \<mapsto> content))))"

subsection \<open>\<^verbatim>\<open>PetIGA.read\<close>\<close>

text \<open>\<^verbatim>\<open>abs\<close> of a numpy \<^verbatim>\<open>int32\<close> scalar is again an \<^verbatim>\<open>int32\<close>: the negation wraps around.\<close>

definition abs_I :: "index \<Rightarrow> index" where
  "abs_I d = (if sint d < 0 then - d else d)"

text \<open>
  Lines 113 to 122: the loop over the axes. \<open>m\<close>, \<open>p\<close> and \<open>n = m - p - 1\<close> are
  \<^verbatim>\<open>int32\<close> scalars, so the subtraction is the 32-bit one.
\<close>

fun read_axes ::
  "endian \<Rightarrow> nat \<Rightarrow> byte list \<Rightarrow> error + ((float64 ndarray list \<times> nat list) \<times> byte list)" where
  "read_axes host 0 fh = Inr (([], []), fh)"
| "read_axes host (Suc k) fh =
     rbind (read_I fh) (\<lambda>(p, fh).
     py_assert InvalidDegree (1 \<le> sint p)
      (rbind (read_I fh) (\<lambda>(m, fh).
       (let n = m - p - 1 in
        py_assert InvalidGridSize (2 \<le> sint n)
         (let (U, fh) = read_array_R host (sint m) fh in
          py_assert SizeMismatch (int (length (flat U)) = sint m)
           (rbind (read_axes host k fh) (\<lambda>((knots, sizes), fh).
              Inr ((U # knots, nat (sint n) # sizes), fh))))))))"

text \<open>Lines 107 to 133: everything that is read while the file is open.\<close>

definition read_stream ::
  "endian \<Rightarrow> byte list \<Rightarrow>
     error + (float64 ndarray list \<times> nat list \<times> (index \<times> float64 ndarray) option)" where
  "read_stream host fh =
     rbind (read_I fh) (\<lambda>(iga_id, fh).
     py_assert BadMagic (sint iga_id = IGA_ID)
      (rbind (read_I fh) (\<lambda>(descr, fh).
       rbind (read_I fh) (\<lambda>(dm, fh).
       py_assert DimensionOutOfRange (1 \<le> sint dm \<and> sint dm \<le> 3)
        (rbind (read_axes host (nat (sint dm)) fh) (\<lambda>((knots, sizes), fh).
         if 1 \<le> sint (abs_I descr) then
           rbind (read_I fh) (\<lambda>(nsd, fh).
           py_assert DimensionOutOfRange (sint dm \<le> sint nsd \<and> sint nsd \<le> 3)
            (rbind (read_I fh) (\<lambda>(vec_id, fh).
             py_assert BadMagic (sint vec_id = VEC_ID)
              (rbind (read_I fh) (\<lambda>(n, fh).
               (let (Cw, fh) = read_array_R host (sint n) fh in
                py_assert SizeMismatch (int (length (flat Cw)) = sint n)
                 (Inr (knots, sizes, Some (nsd, Cw)))))))))
         else Inr (knots, sizes, None)))))))"

text \<open>
  Lines 138 to 144: the canonical control array with four channels. The assignment to the
  last channel comes second in the source, so it is tested first here.
\<close>

definition build_control :: "nat \<Rightarrow> nat list \<Rightarrow> float64 ndarray \<Rightarrow> error + float64 ndarray" where
  "build_control nsd sizes Cw =
     rbind (reshape_F Cw ((nsd + 1) # sizes)) (\<lambda>Cw.
     (let Cw = rollaxis_back Cw in
      Inr (tabulate (byteorder Cw) (sizes @ [4])
             (\<lambda>js. if last js = 3 then at Cw (butlast js @ [nsd])
                   else if last js < nsd then at Cw js
                   else 0))))"

text \<open>
  Modelled from the spec: the constructor \<^verbatim>\<open>NURBS(knots, control)\<close> of the geometry object,
  whose class is not in the source. The specification gives the object a dimension (the
  number of knot vectors) and degrees tied to the grid sizes by
  \<open>n\<^sub>i = m\<^sub>i - degree\<^sub>i - 1\<close>, where \<open>n\<^sub>i\<close> is the size of the control grid along axis \<open>i\<close>.
  It does not say where the degrees come from when there is no control grid; none are
  recorded then.
\<close>

definition NURBS :: "float64 ndarray list \<Rightarrow> float64 ndarray option \<Rightarrow> nurbs" where
  "NURBS ks c =
     \<lparr>dim = int (length ks),
      degree = (case c of
                  None \<Rightarrow> []
                | Some a \<Rightarrow> map (\<lambda>(U, n). int (length (flat U)) - int n - 1) (zip ks (shape a))),
      knots = ks,
      control = c\<rparr>"

definition petiga_read :: "endian \<Rightarrow> filesystem \<Rightarrow> string \<Rightarrow> error + nurbs" where
  "petiga_read host fs filename =
     (case fs filename of
        None \<Rightarrow> Inl FileNotFoundError
      | Some content \<Rightarrow>
          rbind (read_stream host content) (\<lambda>(knots, sizes, g).
            case g of
              None \<Rightarrow> Inr (NURBS knots None)
            | Some (nsd, Cw) \<Rightarrow>
                rbind (build_control (nat (sint nsd)) sizes Cw) (\<lambda>c. Inr (NURBS knots (Some c)))))"

subsection \<open>\<^verbatim>\<open>PetIGA.write_vec\<close> and \<^verbatim>\<open>PetIGA.read_vec\<close>\<close>

text \<open>
  Both functions use nothing of the geometry but \<^verbatim>\<open>nurbs.shape\<close>, the grid sizes: the
  argument is that tuple, or \<open>None\<close> for \<^verbatim>\<open>nurbs=None\<close>. \<^verbatim>\<open>A.reshape(shape + (-1,))\<close>
  raises ValueError unless the size of \<open>A\<close> is a multiple of the (nonzero) product.
\<close>

definition write_vec_prepare :: "float64 ndarray \<Rightarrow> nat list option \<Rightarrow> error + float64 list" where
  "write_vec_prepare A nshape =
     (case nshape of
        None \<Rightarrow> Inr (flat A)
      | Some sh \<Rightarrow>
          (let N = length (flat A); P = prod_list sh in
           if P = 0 \<or> N mod P \<noteq> 0 then Inl ValueError
           else Inr (ravel_F (rollaxis_front (A\<lparr>shape := sh @ [N div P]\<rparr>)))))"

definition write_vec ::
  "filesystem \<Rightarrow> string \<Rightarrow> float64 ndarray \<Rightarrow> nat list option \<Rightarrow> error option \<times> filesystem" where
  "write_vec fs filename A nshape =
     (case write_vec_prepare A nshape of
        Inl e \<Rightarrow> (Some e, fs)
      | Inr xs \<Rightarrow>
          (let (r, content) =
                 wseq (write_I VEC_ID []) (\<lambda>fh.
                 wseq (write_I (int (length xs)) fh) (\<lambda>fh.
                 write_array_R xs fh))
           in (r, fs(filename \<mapsto> content))))"

text \<open>\<^verbatim>\<open>A.squeeze()\<close> drops every axis of size one; \<^verbatim>\<open>np.ascontiguousarray\<close> returns an array of
  at least one dimension.\<close>

definition squeeze :: "'a ndarray \<Rightarrow> 'a ndarray" where
  "squeeze a = a\<lparr>shape := filter (\<lambda>n. n \<noteq> 1) (shape a)\<rparr>"

definition ascontiguousarray :: "'a ndarray \<Rightarrow> 'a ndarray" where
  "ascontiguousarray a = (if shape a = [] then a\<lparr>shape := [1]\<rparr> else a)"

definition read_vec ::
  "endian \<Rightarrow> filesystem \<Rightarrow> string \<Rightarrow> nat list option \<Rightarrow> error + float64 ndarray" where
  "read_vec host fs filename nshape =
     (case fs filename of
        None \<Rightarrow> Inl FileNotFoundError
      | Some fh \<Rightarrow>
          rbind (read_I fh) (\<lambda>(clsid, fh).
          py_assert BadMagic (sint clsid = VEC_ID)
           (rbind (read_I fh) (\<lambda>(n, fh).
            (let (A, fh) = read_array_R host (sint n) fh in
             py_assert SizeMismatch (int (length (flat A)) = sint n)
              (case nshape of
                 None \<Rightarrow> Inr A
               | Some sh \<Rightarrow>
                   (let N = length (flat A); P = prod_list sh in
                    if P = 0 \<or> N mod P \<noteq> 0 then Inl ValueError
                    else rbind (reshape_F A ((N div P) # sh)) (\<lambda>A.
                         Inr (ascontiguousarray (squeeze (rollaxis_back A)))))))))))"

subsection \<open>\<^verbatim>\<open>PetIGA.read_mat\<close>\<close>

text \<open>\<^verbatim>\<open>np.cumsum(rownz, out=AI[1:])\<close> into an \<^verbatim>\<open>int32\<close> array: the running sums, wrapped to
  32 bits. The accumulator is the sum so far.\<close>

fun cumsum :: "index \<Rightarrow> index list \<Rightarrow> index list" where
  "cumsum acc [] = []"
| "cumsum acc (x # xs) = (acc + x) # cumsum (acc + x) xs"

text \<open>
  \<^verbatim>\<open>M + 1\<close> is computed on \<^verbatim>\<open>int32\<close> scalars; \<^verbatim>\<open>np.empty\<close> raises ValueError for a negative
  size, \<^verbatim>\<open>AI[0] = 0\<close> IndexError for an empty array, the unpacking of fewer than three
  values and \<^verbatim>\<open>cumsum\<close> into an array of another length ValueError. The values \<open>AV\<close> are
  read with \<^verbatim>\<open>np.fromfile\<close> directly, not with \<^verbatim>\<open>_read\<close>.
\<close>

definition read_mat ::
  "endian \<Rightarrow> filesystem \<Rightarrow> string \<Rightarrow>
     error + ((index \<times> index) \<times> (index ndarray \<times> index ndarray \<times> float64 ndarray))" where
  "read_mat host fs filename =
     (case fs filename of
        None \<Rightarrow> Inl FileNotFoundError
      | Some fh \<Rightarrow>
          rbind (read_I fh) (\<lambda>(clsid, fh).
          py_assert BadMagic (sint clsid = MAT_ID)
           (let (hdr, fh) = read_array_I host 3 fh in
            case flat hdr of
              [M, N, nz] \<Rightarrow>
                if sint (M + 1) < 0 then Inl ValueError
                else if sint (M + 1) = 0 then Inl IndexError
                else
                  (let (rownz, fh) = read_array_I host (sint M) fh in
                   if int (length (flat rownz)) \<noteq> sint M then Inl ValueError
                   else
                     (let AI = \<lparr>byteorder = host, shape = [nat (sint (M + 1))],
                                flat = 0 # cumsum 0 (flat rownz)\<rparr> in
                      py_assert SizeMismatch (last (flat AI) = nz)
                       (let (AJ, fh) = read_array_I host (sint nz) fh in
                        py_assert SizeMismatch (int (length (flat AJ)) = sint nz)
                         (let (AV, fh) = fromfile_R (sint nz) fh in
                          py_assert SizeMismatch (int (length (flat AV)) = sint nz)
                           (Inr ((M, N), (AI, AJ, AV)))))))
            | _ \<Rightarrow> Inl ValueError)))"

subsection \<open>The layout of a geometry file\<close>

text \<open>
  What the statements of \<^verbatim>\<open>write\<close> put into the file, piece by piece: used to state what a
  written file looks like. \<open>fits_I\<close> is the range of the Index type.
\<close>

definition fits_I :: "int \<Rightarrow> bool" where
  "fits_I v \<longleftrightarrow> - (2 ^ 31) \<le> v \<and> v < 2 ^ 31"

definition I_bytes :: "int \<Rightarrow> byte list" where
  "I_bytes v = enc_I (word_of_int v)"

definition R_bytes :: "float64 list \<Rightarrow> byte list" where
  "R_bytes xs = concat (map enc_R xs)"

definition axis_bytes :: "int \<times> float64 ndarray \<Rightarrow> byte list" where
  "axis_bytes a =
     I_bytes (fst a) @ I_bytes (int (length (flat (snd a)))) @ R_bytes (flat (snd a))"

definition header_bytes :: "int \<Rightarrow> int \<Rightarrow> (int \<times> float64 ndarray) list \<Rightarrow> byte list" where
  "header_bytes descr dm axes =
     I_bytes IGA_ID @ I_bytes descr @ I_bytes dm @ concat (map axis_bytes axes)"

definition control_bytes :: "int \<Rightarrow> float64 list \<Rightarrow> byte list" where
  "control_bytes nsd Cw =
     I_bytes nsd @ I_bytes VEC_ID @ I_bytes (int (length Cw)) @ R_bytes Cw"

text \<open>
  An axis that the reader accepts: degree at least one, at least two control points, both
  numbers in the range of the Index type.
\<close>

definition valid_axis :: "int \<times> float64 ndarray \<Rightarrow> bool" where
  "valid_axis a \<longleftrightarrow>
     1 \<le> fst a \<and> fits_I (fst a) \<and> fits_I (int (length (flat (snd a)))) \<and>
     2 \<le> int (length (flat (snd a))) - fst a - 1"

text \<open>The knot vector and the grid size that the reader makes of a valid axis.\<close>

definition knots_read :: "endian \<Rightarrow> int \<times> float64 ndarray \<Rightarrow> float64 ndarray" where
  "knots_read host a =
     \<lparr>byteorder = host, shape = [length (flat (snd a))], flat = flat (snd a)\<rparr>"

definition size_read :: "int \<times> float64 ndarray \<Rightarrow> nat" where
  "size_read a = nat (int (length (flat (snd a))) - fst a - 1)"

subsection \<open>Example data\<close>

text \<open>A straight line of degree one from the origin to \<open>(1, 0, 0)\<close>: the doubles \<open>0.0\<close> and
  \<open>1.0\<close> are the bit patterns \<open>0\<close> and \<open>0x3FF0000000000000\<close>.\<close>

definition one_f :: float64 where "one_f = 0x3FF0000000000000"

definition line_nurbs :: nurbs where
  "line_nurbs =
     \<lparr>dim = 1, degree = [1],
      knots = [\<lparr>byteorder = LittleEndian, shape = [4], flat = [0, 0, one_f, one_f]\<rparr>],
      control = Some \<lparr>byteorder = LittleEndian, shape = [2, 4],
                      flat = [0, 0, 0, one_f, one_f, 0, 0, one_f]\<rparr>\<rparr>"

section \<open>Properties of the codec\<close>

subsection \<open>The primitive codec inverts itself\<close>

lemma length_be_bytes [simp]: "length (be_bytes n v) = n"
  by (induction n) auto

lemma foldl_be_bytes:
  "foldl (\<lambda>a b. a * 256 + unat b) a (be_bytes n v) = a * 256 ^ n + v mod 256 ^ n"
proof (induction n arbitrary: a)
  case 0
  then show ?case by simp
next
  case (Suc n)
  have split: "v mod (256 ^ n * 256) = 256 ^ n * (v div 256 ^ n mod 256) + v mod 256 ^ n"
    by (rule mod_mult2_eq)
  have "foldl (\<lambda>a b. a * 256 + unat b) a (be_bytes (Suc n) v)
          = foldl (\<lambda>a b. a * 256 + unat b) (a * 256 + v div 256 ^ n mod 256) (be_bytes n v)"
    by (simp add: unat_of_nat)
  also have "\<dots> = (a * 256 + v div 256 ^ n mod 256) * 256 ^ n + v mod 256 ^ n"
    by (rule Suc)
  also have "\<dots> = a * 256 ^ Suc n + v mod 256 ^ Suc n"
    using split by (simp add: algebra_simps)
  finally show ?case .
qed

lemma be_nat_be_bytes: "be_nat (be_bytes n v) = v mod 256 ^ n"
  using foldl_be_bytes [of 0 n v] by (simp add: be_nat_def)

lemma dec_enc_I [simp]: "dec_I (enc_I w) = w"
proof -
  have "unat w < 2 ^ 32" using unsigned_less [of w, where ?'a = nat] by simp
  then have "unat w mod 256 ^ 4 = unat w" by simp
  then show ?thesis by (simp add: dec_I_def enc_I_def be_nat_be_bytes)
qed

lemma dec_enc_R [simp]: "dec_R (enc_R w) = w"
proof -
  have "unat w < 2 ^ 64" using unsigned_less [of w, where ?'a = nat] by simp
  then have "unat w mod 256 ^ 8 = unat w" by simp
  then show ?thesis by (simp add: dec_R_def enc_R_def be_nat_be_bytes)
qed

lemma length_enc_I [simp]: "length (enc_I w) = 4"
  by (simp add: enc_I_def)

lemma length_enc_R [simp]: "length (enc_R w) = 8"
  by (simp add: enc_R_def)

lemma take_items_concat:
  "\<forall>x \<in> set xs. length x = w \<Longrightarrow> take_items w (length xs) (concat xs @ rest) = (xs, rest)"
  by (induction xs) auto

lemma take_items_length_le:
  "0 < w \<Longrightarrow> length (fst (take_items w k fh)) * w \<le> length fh"
proof (induction k arbitrary: fh)
  case 0
  then show ?case by simp
next
  case (Suc k)
  show ?case
  proof (cases "length fh < w")
    case True
    then show ?thesis by simp
  next
    case False
    from Suc.IH [OF Suc.prems, of "drop w fh"] False show ?thesis
      by (simp add: split_beta)
  qed
qed

lemma take_items_length_count: "length (fst (take_items w k fh)) \<le> k"
  by (induction k arbitrary: fh) (auto simp: split_beta)

lemma read_I_enc [simp]: "read_I (enc_I w @ rest) = Inr (w, rest)"
  using take_items_concat [of "[enc_I w]" 4 rest]
  by (simp add: read_I_def fromfile_I_def np_fromfile_def)

lemma read_I_short: "length fh < 4 \<Longrightarrow> read_I fh = Inl IndexError"
  by (simp add: read_I_def fromfile_I_def np_fromfile_def)

lemma read_array_R_enc:
  "read_array_R host (int (length xs)) (concat (map enc_R xs) @ rest)
     = (\<lparr>byteorder = host, shape = [length xs], flat = xs\<rparr>, rest)"
  using take_items_concat [of "map enc_R xs" 8 rest]
  by (simp add: read_array_R_def fromfile_R_def np_fromfile_def astype_native_def
        comp_def)

lemma read_array_I_enc:
  "read_array_I host (int (length xs)) (concat (map enc_I xs) @ rest)
     = (\<lparr>byteorder = host, shape = [length xs], flat = xs\<rparr>, rest)"
  using take_items_concat [of "map enc_I xs" 4 rest]
  by (simp add: read_array_I_def fromfile_I_def np_fromfile_def astype_native_def
        comp_def)

subsection \<open>What \<^verbatim>\<open>write\<close> puts into the file\<close>

lemma sint_word_of_int_fits: "fits_I v \<Longrightarrow> sint (word_of_int v :: index) = v"
  by (simp add: fits_I_def sint_sbintrunc' signed_take_bit_int_eq_self)

lemma read_I_I_bytes [simp]: "read_I (I_bytes v @ rest) = Inr (word_of_int v, rest)"
  by (simp add: I_bytes_def)

lemma read_array_R_bytes:
  "count = int (length xs) \<Longrightarrow>
   read_array_R host count (R_bytes xs @ rest)
     = (\<lparr>byteorder = host, shape = [length xs], flat = xs\<rparr>, rest)"
  by (simp add: R_bytes_def read_array_R_enc)

lemma write_I_fits: "write_I v fh = (if fits_I v then (None, fh @ I_bytes v) else (Some OverflowError, fh))"
  by (simp add: write_I_def fits_I_def I_bytes_def)

lemma write_axes_None:
  "fst (write_axes axes fh) = None \<longleftrightarrow>
     (\<forall>a \<in> set axes. fits_I (fst a) \<and> fits_I (int (length (flat (snd a)))))"
proof (induction axes arbitrary: fh)
  case Nil
  then show ?case by simp
next
  case (Cons a axes)
  obtain p U where a: "a = (p, U)" by (cases a)
  show ?case
    by (simp add: a write_I_fits wseq_def write_array_R_def Cons.IH)
qed

lemma write_axes_bytes:
  "fst (write_axes axes fh) = None \<Longrightarrow>
   snd (write_axes axes fh) = fh @ concat (map axis_bytes axes)"
proof (induction axes arbitrary: fh)
  case Nil
  then show ?case by simp
next
  case (Cons a axes)
  obtain p U where a: "a = (p, U)" by (cases a)
  from Cons.prems have f: "fits_I p" "fits_I (int (length (flat U)))"
    by (auto simp: a write_I_fits wseq_def split: if_splits)
  with Cons.prems have "fst (write_axes axes (fh @ axis_bytes a)) = None"
    by (simp add: a write_I_fits wseq_def write_array_R_def axis_bytes_def R_bytes_def)
  from Cons.IH [OF this] f show ?case
    by (simp add: a write_I_fits wseq_def write_array_R_def axis_bytes_def R_bytes_def)
qed

subsection \<open>Reading the axes\<close>

lemma sint_sub_no_wrap:
  fixes m p :: index
  assumes "0 \<le> sint m" "1 \<le> sint p"
  shows "sint (m - p - 1) = sint m - sint p - 1"
proof -
  have lo: "- (2 ^ 31) \<le> sint p" and hi: "sint p < 2 ^ 31" and him: "sint m < 2 ^ 31"
    using sint_ge [of p] sint_lt [of p] sint_lt [of m] by simp_all
  have "m - p - 1 = word_of_int (sint m - sint p - 1)"
    by simp
  moreover have "fits_I (sint m - sint p - 1)"
    using assms lo hi him by (simp add: fits_I_def)
  ultimately show ?thesis
    by (simp only: sint_word_of_int_fits)
qed

lemma read_array_R_negative:
  "count < 0 \<Longrightarrow> int (length (flat (fst (read_array_R host count fh)))) \<noteq> count"
  by (simp add: read_array_R_def fromfile_R_def astype_native_def split_beta)

lemma read_axes_bad_degree:
  "sint p < 1 \<Longrightarrow> read_axes host (Suc k) (enc_I p @ rest) = Inl (AssertionError InvalidDegree)"
  by (simp add: rbind_def py_assert_def)

lemma read_axes_bad_size:
  "1 \<le> sint p \<Longrightarrow> sint (m - p - 1) < 2 \<Longrightarrow>
   read_axes host (Suc k) (enc_I p @ enc_I m @ rest) = Inl (AssertionError InvalidGridSize)"
  by (simp add: rbind_def py_assert_def)

lemma read_axes_bad_size_int:
  assumes "1 \<le> sint p" "sint m - sint p - 1 < 2"
  shows "isl (read_axes host (Suc k) (enc_I p @ enc_I m @ rest))"
proof (cases "sint (m - p - 1) < 2")
  case True
  have "read_axes host (Suc k) (enc_I p @ enc_I m @ rest) = Inl (AssertionError InvalidGridSize)"
    using assms(1) True by (rule read_axes_bad_size)
  then show ?thesis by simp
next
  case False
  with assms have neg: "sint m < 0"
    using sint_sub_no_wrap [of m p] by fastforce
  have "int (length (flat (fst (read_array_R host (sint m) rest)))) \<noteq> sint m"
    using neg by (rule read_array_R_negative)
  then show ?thesis
    using assms(1) False
    by (simp add: rbind_def py_assert_def split_beta)
qed

lemma read_axes_step:
  assumes "valid_axis a"
  shows "read_axes host (Suc k) (axis_bytes a @ tail)
           = rbind (read_axes host k tail) (\<lambda>((ks, ss), fh).
               Inr ((knots_read host a # ks, size_read a # ss), fh))"
proof -
  define p where "p = fst a"
  define xs where "xs = flat (snd a)"
  define pw :: index where "pw = word_of_int p"
  define mw :: index where "mw = word_of_int (int (length xs))"
  from assms have v: "1 \<le> p" "fits_I p" "fits_I (int (length xs))"
      "2 \<le> int (length xs) - p - 1"
    by (simp_all add: valid_axis_def p_def xs_def)
  have sp: "sint pw = p" and sm: "sint mw = int (length xs)"
    using v by (simp_all only: pw_def mw_def sint_word_of_int_fits)
  have "mw - pw - 1 = word_of_int (int (length xs) - p - 1)"
    by (simp add: pw_def mw_def)
  moreover have "fits_I (int (length xs) - p - 1)"
    using v by (simp add: fits_I_def)
  ultimately have sn: "sint (mw - pw - 1) = int (length xs) - p - 1"
    by (simp only: sint_word_of_int_fits)
  have bytes: "axis_bytes a @ tail = enc_I pw @ enc_I mw @ R_bytes xs @ tail"
    by (simp add: axis_bytes_def I_bytes_def pw_def mw_def p_def xs_def)
  have arr: "read_array_R host (int (length xs)) (R_bytes xs @ tail)
               = (\<lparr>byteorder = host, shape = [length xs], flat = xs\<rparr>, tail)"
    by (rule read_array_R_bytes) simp
  show ?thesis
  proof (cases "read_axes host k tail")
    case (Inl e)
    then show ?thesis
      unfolding bytes using v
      by (simp add: rbind_def py_assert_def sp sm sn arr)
  next
    case (Inr r)
    then show ?thesis
      unfolding bytes using v
      by (simp add: rbind_def py_assert_def sp sm sn arr knots_read_def size_read_def
            p_def [symmetric] xs_def [symmetric] split_beta)
  qed
qed

lemma read_axes_prefix:
  assumes "\<forall>a \<in> set axes. valid_axis a"
  shows "read_axes host (length axes + j) (concat (map axis_bytes axes) @ tail)
           = rbind (read_axes host j tail) (\<lambda>((ks, ss), fh).
               Inr ((map (knots_read host) axes @ ks, map size_read axes @ ss), fh))"
  using assms
proof (induction axes)
  case Nil
  show ?case by (simp add: rbind_def split: sum.splits)
next
  case (Cons a axes)
  have "read_axes host (length (a # axes) + j) (concat (map axis_bytes (a # axes)) @ tail)
          = read_axes host (Suc (length axes + j)) (axis_bytes a @ concat (map axis_bytes axes) @ tail)"
    by simp
  also have "\<dots> = rbind (read_axes host (length axes + j) (concat (map axis_bytes axes) @ tail))
                      (\<lambda>((ks, ss), fh). Inr ((knots_read host a # ks, size_read a # ss), fh))"
    using Cons.prems by (intro read_axes_step) simp
  also have "\<dots> = rbind (read_axes host j tail) (\<lambda>((ks, ss), fh).
               Inr ((map (knots_read host) (a # axes) @ ks, map size_read (a # axes) @ ss), fh))"
    using Cons by (simp add: rbind_def split: sum.splits)
  finally show ?case .
qed

subsection \<open>Arguments of \<^verbatim>\<open>write\<close>\<close>

text \<open>
  C8. With control data (\<^verbatim>\<open>geometry=True\<close>), leaving \<^verbatim>\<open>nsd\<close> out is the same as passing the
  dimension of the geometry, and the call fails with an assertion error whenever \<^verbatim>\<open>nsd\<close>
  is not between the dimension and 3. Without control data, the call fails with an
  assertion error whenever \<^verbatim>\<open>nsd\<close> is given.
\<close>

theorem write_argument_validation:
  "petiga_write fs filename nrb True None = petiga_write fs filename nrb True (Some (dim nrb))
   \<and> (\<not> (dim nrb \<le> v \<and> v \<le> 3) \<longrightarrow>
        fst (petiga_write fs filename nrb True (Some v)) = Some (AssertionError BadArguments))
   \<and> fst (petiga_write fs filename nrb False (Some v)) = Some (AssertionError BadArguments)"
  by (simp add: petiga_write_def write_prepare_def py_assert_def)

theorem write_argument_validation_witness:
  "\<not> (dim line_nurbs \<le> 5 \<and> (5::int) \<le> 3) \<and>
   fst (petiga_write Map.empty ''a.iga'' line_nurbs True (Some 5))
     = Some (AssertionError BadArguments)"
  using write_argument_validation [of Map.empty "''a.iga''" line_nurbs 5]
  by (simp add: line_nurbs_def)

text \<open>
  C10. When the arguments are invalid in the sense of C8, \<^verbatim>\<open>write\<close> raises before the file
  is opened: the file system after the call is the one before it, so a file of that name
  is neither created nor truncated nor changed.
\<close>

theorem write_invalid_arguments_keep_files:
  assumes "(geometry \<and> \<not> (dim nrb \<le> (case nsd of None \<Rightarrow> dim nrb | Some v \<Rightarrow> v)
                          \<and> (case nsd of None \<Rightarrow> dim nrb | Some v \<Rightarrow> v) \<le> 3))
           \<or> (\<not> geometry \<and> nsd \<noteq> None)"
  shows "petiga_write fs filename nrb geometry nsd = (Some (AssertionError BadArguments), fs)"
  using assms by (auto simp: petiga_write_def write_prepare_def py_assert_def Let_def)

theorem write_invalid_arguments_keep_files_witness:
  "petiga_write [''a.iga'' \<mapsto> [1, 2, 3]] ''a.iga'' line_nurbs False (Some 1)
     = (Some (AssertionError BadArguments), [''a.iga'' \<mapsto> [1, 2, 3]])"
  using write_invalid_arguments_keep_files
          [of False line_nurbs "Some 1" "[''a.iga'' \<mapsto> [1, 2, 3]]" "''a.iga''"]
  by simp

end
